theory Spec2Isabelle
  imports Complex_Main "HOL-Library.Multiset"
begin

section \<open>Strings and library functions used by the program\<close>

text \<open>
  Go strings are byte sequences; they are modelled as \<^typ>\<open>string\<close> (a list of 8-bit
  characters).  The functions of this section belong to the Go standard library, not to
  the repository; they are written out here as far as the program depends on them.
\<close>

text \<open>
  \<open>strings.ToLower\<close>, on the ASCII letters.  The program compares the lowered string
  only with literals built from the letters and digits of \<open>yes no true false t f 1 0 green\<close>;
  no rune outside ASCII lowers to one of those letters, so the comparison results of the
  byte-wise function and of the Unicode-aware one agree.
\<close>

definition ToLower_byte :: "char \<Rightarrow> char" where
  "ToLower_byte c =
     (case map_of (zip ''ABCDEFGHIJKLMNOPQRSTUVWXYZ'' ''abcdefghijklmnopqrstuvwxyz'') c of
        Some l \<Rightarrow> l
      | None \<Rightarrow> c)"

definition ToLower :: "string \<Rightarrow> string" where
  "ToLower s = map ToLower_byte s"

text \<open>\<open>strings.HasPrefix s prefix\<close>.\<close>

definition HasPrefix :: "string \<Rightarrow> string \<Rightarrow> bool" where
  "HasPrefix s p = (take (length p) s = p)"

text \<open>Go errors: \<open>fmt.Errorf\<close> with its rendered message, and \<open>strconv.NumError\<close>
  with its fields \<open>Func\<close>, \<open>Num\<close> and \<open>Err\<close>.\<close>

datatype error = Errorf string | NumError string string string

text \<open>
  \<open>strconv.ParseBool\<close>: it accepts 1, t, T, TRUE, true, True, 0, f, F, FALSE, false,
  False; any other value returns a syntax error.  The pair is Go's \<open>(bool, error)\<close>.
\<close>

definition ParseBool :: "string \<Rightarrow> bool \<times> error option" where
  "ParseBool str =
     (if str \<in> set [''1'', ''t'', ''T'', ''TRUE'', ''true'', ''True''] then (True, None)
      else if str \<in> set [''0'', ''f'', ''F'', ''FALSE'', ''false'', ''False''] then (False, None)
      else (False, Some (NumError ''ParseBool'' str ''invalid syntax'')))"

text \<open>\<open>fmt.Sprintf("%d", n)\<close>: the decimal digits of an integer.\<close>

fun decimal :: "nat \<Rightarrow> string" where
  "decimal n =
     (if n < 10 then [''0123456789'' ! n]
      else decimal (n div 10) @ [''0123456789'' ! (n mod 10)])"

definition Sprintf_d :: "int \<Rightarrow> string" where
  "Sprintf_d i = (if i < 0 then ''-'' @ decimal (nat (- i)) else decimal (nat i))"

text \<open>
  \<open>base64.StdEncoding.EncodeToString\<close> (RFC 4648, with padding): three bytes give four
  characters of the alphabet; a rest of one or two bytes is padded with \<open>=\<close>.
\<close>

definition encodeStd :: "nat \<Rightarrow> char" where
  "encodeStd n =
     ''ABCDEFGHIJKLMNOPQRSTUVWXYZabcdefghijklmnopqrstuvwxyz0123456789+/'' ! n"

fun Encode :: "nat list \<Rightarrow> string" where
  "Encode (a # b # c # src) =
     [encodeStd (a div 4), encodeStd ((a mod 4) * 16 + b div 16),
      encodeStd ((b mod 16) * 4 + c div 64), encodeStd (c mod 64)] @ Encode src"
| "Encode [a, b] =
     [encodeStd (a div 4), encodeStd ((a mod 4) * 16 + b div 16),
      encodeStd ((b mod 16) * 4), CHR ''='']"
| "Encode [a] =
     [encodeStd (a div 4), encodeStd ((a mod 4) * 16), CHR ''='', CHR ''='']"
| "Encode [] = []"

definition EncodeToString :: "string \<Rightarrow> string" where
  "EncodeToString src = Encode (map of_char src)"

text \<open>
  A \<open>float64\<close> is modelled by the real number it stands for.  The conversion
  \<open>float64(n)\<close> of an integer rounds to 53 significant bits, to the nearest value and
  on a tie to the one with an even significand: \<open>bitLen\<close> is the number of bits of the
  magnitude, and of a longer magnitude the bits below the 53 leading ones are rounded
  away.  (The integers of the program have at most 64 bits, far from overflow.)
\<close>

fun bitLen :: "nat \<Rightarrow> nat" where
  "bitLen n = (if n = 0 then 0 else Suc (bitLen (n div 2)))"

definition float64 :: "int \<Rightarrow> real" where
  "float64 n =
     (let a = nat \<bar>n\<bar>; k = bitLen a
      in if k \<le> 53 then of_int n
         else
           let s = k - 53;
               q = a div 2 ^ s;
               r = a mod 2 ^ s;
               half = 2 ^ (s - 1);
               q = (if r > half \<or> (r = half \<and> odd q) then q + 1 else q)
           in of_int (sgn n * int (q * 2 ^ s)))"

text \<open>
  The comparison \<open><\<close> of Go strings, byte by byte, and a sort of label pairs by their
  names with it, as the metrics library sorts the label pairs of a metric (the names of
  one metric are distinct).
\<close>

fun lessString :: "string \<Rightarrow> string \<Rightarrow> bool" where
  "lessString [] [] = False"
| "lessString [] (y # ys) = True"
| "lessString (x # xs) [] = False"
| "lessString (x # xs) (y # ys) =
     ((of_char x :: nat) < of_char y \<or> (x = y \<and> lessString xs ys))"

fun insertPair :: "string \<times> string \<Rightarrow> (string \<times> string) list \<Rightarrow> (string \<times> string) list" where
  "insertPair p [] = [p]"
| "insertPair p (q # qs) = (if lessString (fst q) (fst p) then q # insertPair p qs else p # q # qs)"

definition sortLabelPairs :: "(string \<times> string) list \<Rightarrow> (string \<times> string) list" where
  "sortLabelPairs ps = foldr insertPair ps []"


section \<open>Package config\<close>

record KibanaConfig =
  Name :: string
  Protocol :: string
  Host :: string
  Port :: string
  Username :: string
  Password :: string
  Skip :: string
  Wait :: string
  uri :: string
  skip :: bool
  wait :: bool

definition parseBool :: "string \<Rightarrow> bool \<times> error option" where
  "parseBool val0 =
     (let val = ToLower val0;
          val = (if val = ''no'' then ''0'' else if val = ''yes'' then ''1'' else val)
      in ParseBool val)"

text \<open>\<open>url\<close>: \<open>fmt.Sprintf("%s://%s:%s", c.Protocol, c.Host, c.Port)\<close>.\<close>

definition url :: "KibanaConfig \<Rightarrow> string" where
  "url c = Protocol c @ ''://'' @ Host c @ '':'' @ Port c"

text \<open>
  \<open>check\<close> works on the receiver in place: the result is the configuration as the call
  leaves it (also when it returns an error, after the fields assigned so far) and the
  returned error.
\<close>

definition check :: "KibanaConfig \<Rightarrow> KibanaConfig \<times> error option" where
  "check c0 =
     (if Name c0 = '''' then (c0, Some (Errorf ''config must have the field name set''))
      else
        let c = (if Protocol c0 = '''' then c0\<lparr>Protocol := ''http''\<rparr> else c0);
            c = (if Host c = '''' then c\<lparr>Host := ''localhost''\<rparr> else c);
            c = (if Port c = '''' then c\<lparr>Port := ''5601''\<rparr> else c);
            (c, err) = (if Skip c = '''' then (c\<lparr>skip := False\<rparr>, None)
                        else let (b, err) = parseBool (Skip c) in (c\<lparr>skip := b\<rparr>, err))
        in if err \<noteq> None then (c, err)
           else
             let (c, err) = (if Wait c = '''' then (c\<lparr>wait := False\<rparr>, None)
                             else let (b, err) = parseBool (Wait c) in (c\<lparr>wait := b\<rparr>, err))
             in if err \<noteq> None then (c, err)
                else (c\<lparr>uri := url c\<rparr>, None))"

text \<open>
  The pattern of \<open>SetDefault\<close> is \<^verbatim>\<open>^(https?)://([^:]+)(?::(\d+))\<close>.  After the scheme
  and \<^verbatim>\<open>://\<close>, group 2 is a non-empty run of bytes other than a colon; it is followed by
  a colon, so it ends at the first colon.  Group 3 is a non-empty run of ASCII digits
  after that colon, as long as possible; the pattern is not anchored at the end.
  \<open>hostPort\<close> matches \<^verbatim>\<open>([^:]+)(?::(\d+))\<close> at the start of its argument.
\<close>

definition isDigit :: "char \<Rightarrow> bool" where
  "isDigit c = (c \<in> set ''0123456789'')"

definition hostPort :: "string \<Rightarrow> (string \<times> string) option" where
  "hostPort s =
     (let host = takeWhile (\<lambda>c. c \<noteq> CHR '':'') s in
      if host = [] then None
      else case dropWhile (\<lambda>c. c \<noteq> CHR '':'') s of
             [] \<Rightarrow> None
           | colon # rest \<Rightarrow>
               (let port = takeWhile isDigit rest in
                if port = [] then None else Some (host, port)))"

text \<open>
  \<open>urlLineRE.FindStringSubmatch\<close>: \<open>None\<close> is the nil slice of no match, otherwise the
  whole match followed by the three groups.  \<^verbatim>\<open>https?\<close> tries the \<open>s\<close> first.
\<close>

definition FindStringSubmatch :: "string \<Rightarrow> string list option" where
  "FindStringSubmatch s =
     (let try = (\<lambda>scheme.
            if HasPrefix s (scheme @ ''://'')
            then (case hostPort (drop (length scheme + 3) s) of
                    None \<Rightarrow> None
                  | Some (host, port) \<Rightarrow>
                      Some [scheme @ ''://'' @ host @ '':'' @ port, scheme, host, port])
            else None)
      in case try ''https'' of Some m \<Rightarrow> Some m | None \<Rightarrow> try ''http'')"

definition SetDefault :: "KibanaConfig \<Rightarrow> string \<Rightarrow> bool \<Rightarrow> bool \<Rightarrow> KibanaConfig \<times> error option" where
  "SetDefault c0 url' skipTls wait' =
     (let c = (case FindStringSubmatch url' of
                 Some match \<Rightarrow> c0\<lparr>Protocol := match ! 1, Host := match ! 2, Port := match ! 3\<rparr>
               | None \<Rightarrow> c0)
      in (c\<lparr>uri := url', skip := skipTls, wait := wait'\<rparr>, None))"

definition Url :: "KibanaConfig \<Rightarrow> string" where
  "Url c = uri c"

definition SkipTls :: "KibanaConfig \<Rightarrow> bool" where
  "SkipTls c = skip c"

definition WaitKibana :: "KibanaConfig \<Rightarrow> bool" where
  "WaitKibana c = wait c"

section \<open>Package exporter: the collector\<close>

text \<open>
  Pointers to collectors are addresses into a store of collectors; \<open>None\<close> is the nil
  pointer.  The exporter's slice \<open>Collectors\<close>, its map \<open>KibanaByName\<close> and its field
  \<open>target\<close> hold such pointers, so a change of \<open>State\<close> made through one of them is
  seen through the others.
\<close>

type_synonym addr = nat

datatype panic = NilPointerDereference | IndexOutOfRange

text \<open>The two clients \<open>NewCollector\<close> builds: one with a TLS configuration carrying
  \<open>InsecureSkipVerify\<close>, and the plain \<^verbatim>\<open>&http.Client{}\<close>.\<close>

datatype http_Client = TLSClient bool | PlainClient

record KibanaCollector =
  State :: bool
  kibana :: KibanaConfig
  authHeader :: string
  client :: http_Client

text \<open>
  \<open>KibanaMetrics\<close>, with the nested structs flattened: \<open>Version\<close> and \<open>Build\<close> of
  \<open>VersionPart\<close>, \<open>Overall_State\<close> for \<open>Status.Overall.State\<close>, \<open>Requests_Total\<close> for
  \<open>Metrics.Requests.Total\<close>, and the other leaves of \<open>Metrics\<close> under their own names.
  The integer fields hold what the decoder accepted, values of at most 64 bits.
\<close>

record KibanaMetrics =
  Version :: string
  Build :: int
  Overall_State :: string
  ConcurrentConnections :: int
  UptimeInMillis :: real
  TotalInBytes :: int
  UsedInBytes :: int
  Load1m :: real
  Load5m :: real
  Load15m :: real
  AvgInMillis :: real
  MaxInMillis :: real
  Disconnects :: int
  Requests_Total :: int

datatype level = Debug | Info | Error

type_synonym log = "(level \<times> string) list"

text \<open>
  The world outside the program, as far as \<open>scrape\<close> and \<open>Collect\<close> call into it.
  In this package every error is built by \<open>fmt.Errorf\<close> or comes from a library call
  and is only ever rendered with \<^verbatim>\<open>%s\<close>; it is represented by its message, and
  nil by \<open>None\<close>.
  \<^item> \<open>NewRequest_err method url\<close>: the error of \<open>http.NewRequest\<close>, if any;
  \<^item> \<open>Do client req\<close>: the error or the response of \<open>client.Do(req)\<close>;
  \<^item> \<open>Body\<close> of a response: the error or the content of \<open>ioutil.ReadAll(resp.Body)\<close>;
  \<^item> \<open>Unmarshal content\<close>: the error of \<open>json.Unmarshal(content, &metrics)\<close> or the
    pointer \<open>metrics\<close> after it (the JSON value \<open>null\<close> sets it to nil without an error);
  \<^item> \<open>Marshal metrics\<close>: the error or the bytes of \<open>json.Marshal(metrics)\<close>;
  \<^item> \<open>mapOrder\<close>: the order in which the range over the map of a gauge vector visits
    its entries in this cycle, Go leaving it open: the entries are visited by increasing
    \<open>mapOrder\<close> of their label values, so that every order of the entries is the one
    of some environment.
\<close>

record Request =
  Method :: string
  URL :: string
  Header :: "(string \<times> string) list"

record Response =
  StatusCode :: int
  Status :: string
  Body :: "string + string"

record env =
  NewRequest_err :: "string \<Rightarrow> string \<Rightarrow> string option"
  Do :: "http_Client \<Rightarrow> Request \<Rightarrow> string + Response"
  Unmarshal :: "string \<Rightarrow> string + KibanaMetrics option"
  Marshal :: "KibanaMetrics option \<Rightarrow> string + string"
  mapOrder :: "string list \<Rightarrow> nat"

text \<open>
  \<open>NewCollector\<close>: the collector built (the caller stores it), the returned error and
  the logger after the call.
\<close>

definition NewCollector :: "KibanaConfig \<Rightarrow> log \<Rightarrow> KibanaCollector \<times> string option \<times> log" where
  "NewCollector kibana' logger0 =
     (let (client', logger) =
            (if HasPrefix (Protocol kibana') ''https''
             then
               let logger = logger0 @ [(Debug, ''kibana URL is a TLS one: '' @ Url kibana')];
                   logger = (if SkipTls kibana'
                             then logger @ [(Info, ''skipping TLS verification for Kibana URL: '' @ Url kibana')]
                             else logger)
               in (TLSClient (SkipTls kibana'), logger)
             else
               let logger = logger0 @ [(Debug, ''kibana URL is a plain text one: '' @ Url kibana')];
                   logger = (if SkipTls kibana'
                             then logger @ [(Info, ''kibana.skip-tls is enabled for an http URL, ignoring: '' @ Url kibana')]
                             else logger)
               in (PlainClient, logger));
          collector = \<lparr>State = False, kibana = kibana', authHeader = '''', client = client'\<rparr>
      in if Username kibana' \<noteq> '''' \<and> Password kibana' \<noteq> ''''
         then
           let logger = logger @ [(Debug, ''using authenticated requests with Kibana'')];
               creds = Username kibana' @ '':'' @ Password kibana';
               encCreds = EncodeToString creds
           in (collector\<lparr>authHeader := ''Basic '' @ encCreds\<rparr>, None, logger)
         else
           (collector, None,
            logger @ [(Info, ''Kibana username or password is not provided, assuming unauthenticated communication'')]))"


section \<open>Package exporter: the exporter\<close>

text \<open>A gauge with its fully-qualified name, its help text and its current value; a
  gauge vector with its label names and one value for each list of label values set so
  far.  The library keeps these in a map; the list holds its entries, each list of label
  values once, and says nothing on the order in which the map is ranged over.\<close>

record Gauge =
  fqName :: string
  Help :: string
  val :: real

record GaugeVec =
  vec_fqName :: string
  vec_help :: string
  variableLabels :: "string list"
  children :: "(string list \<times> real) list"

text \<open>What a gauge sent on the channel of \<open>Collect\<close> shows to the registry: its name,
  its label pairs, sorted by name, and its value (taken when it is sent; no other cycle
  runs in between, as \<open>Collect\<close> holds the lock).\<close>

record Metric =
  metricName :: string
  labelPairs :: "(string \<times> string) list"
  gaugeValue :: real

record Exporter =
  Collectors :: "addr option list"
  target :: "addr option"
  debug :: bool
  KibanaByName :: "string \<rightharpoonup> addr"
  status :: Gauge
  info :: GaugeVec
  concurrentConnections :: Gauge
  uptime :: Gauge
  heapTotal :: Gauge
  heapUsed :: Gauge
  load1m :: Gauge
  load5m :: Gauge
  load15m :: Gauge
  respTimeAvg :: Gauge
  respTimeMax :: Gauge
  reqDisconnects :: Gauge
  reqTotal :: Gauge

record world =
  heap :: "addr \<Rightarrow> KibanaCollector"
  exporter :: Exporter
  logger :: log

definition InfosLabels :: "string list" where
  "InfosLabels = [''version'', ''build'']"

text \<open>\<open>prometheus.BuildFQName\<close> with an empty subsystem, and \<open>prometheus.NewGauge\<close>,
  \<open>prometheus.NewGaugeVec\<close> with the options the exporter gives them.\<close>

definition BuildFQName :: "string \<Rightarrow> string \<Rightarrow> string" where
  "BuildFQName namespace name' =
     (if name' = '''' then '''' else if namespace \<noteq> '''' then namespace @ ''_'' @ name' else name')"

definition NewGauge :: "string \<Rightarrow> string \<Rightarrow> string \<Rightarrow> Gauge" where
  "NewGauge name' help' namespace = \<lparr>fqName = BuildFQName namespace name', Help = help', val = 0\<rparr>"

definition NewGaugeVec :: "string \<Rightarrow> string \<Rightarrow> string \<Rightarrow> string list \<Rightarrow> GaugeVec" where
  "NewGaugeVec name' help' namespace labelNames =
     \<lparr>vec_fqName = BuildFQName namespace name', vec_help = help',
      variableLabels = labelNames, children = []\<rparr>"

definition Set :: "Gauge \<Rightarrow> real \<Rightarrow> Gauge" where
  "Set g v = g\<lparr>val := v\<rparr>"

text \<open>\<open>vec.WithLabelValues(lvs...).Set(v)\<close>, for as many values as the vector has labels.\<close>

definition WithLabelValues_Set :: "GaugeVec \<Rightarrow> string list \<Rightarrow> real \<Rightarrow> GaugeVec" where
  "WithLabelValues_Set vec lvs v =
     (if lvs \<in> fst ` set (children vec)
      then vec\<lparr>children := map (\<lambda>(k, x). if k = lvs then (k, v) else (k, x)) (children vec)\<rparr>
      else vec\<lparr>children := children vec @ [(lvs, v)]\<rparr>)"

definition gaugeMetric :: "Gauge \<Rightarrow> Metric" where
  "gaugeMetric g = \<lparr>metricName = fqName g, labelPairs = [], gaugeValue = val g\<rparr>"

text \<open>The metric of one child of a vector, and \<open>vec.Collect(ch)\<close>: every child of the
  vector, once, in the order of the range over the map.\<close>

definition childMetric :: "GaugeVec \<Rightarrow> string list \<times> real \<Rightarrow> Metric" where
  "childMetric vec child =
     \<lparr>metricName = vec_fqName vec,
      labelPairs = sortLabelPairs (zip (variableLabels vec) (fst child)),
      gaugeValue = snd child\<rparr>"

definition vecCollect :: "(string list \<Rightarrow> nat) \<Rightarrow> GaugeVec \<Rightarrow> Metric list" where
  "vecCollect order vec = map (childMetric vec) (sort_key (\<lambda>child. order (fst child)) (children vec))"

text \<open>The loop of \<open>NewExporter\<close> that fills \<open>KibanaByName\<close>; reading the name through
  a nil pointer panics.\<close>

fun buildKibanaByName ::
  "(addr \<Rightarrow> KibanaCollector) \<Rightarrow> addr option list \<Rightarrow> (string \<rightharpoonup> addr) \<Rightarrow> panic + (string \<rightharpoonup> addr)" where
  "buildKibanaByName h [] m = Inr m"
| "buildKibanaByName h (None # colls) m = Inl NilPointerDereference"
| "buildKibanaByName h (Some coll # colls) m =
     buildKibanaByName h colls (m(Name (kibana (h coll)) \<mapsto> coll))"

definition NewExporter ::
  "string \<Rightarrow> addr option list \<Rightarrow> bool \<Rightarrow> (addr \<Rightarrow> KibanaCollector) \<Rightarrow> panic + (Exporter \<times> string option)" where
  "NewExporter namespace collectors debug' h =
     (let exporter' =
        \<lparr>Collectors = collectors, target = None, debug = debug', KibanaByName = Map.empty,
         status = NewGauge ''status'' ''Kibana overall status (0: down, 1:up)'' namespace,
         info = NewGaugeVec ''info'' ''Kibana overall info, version build; see labels, always 1''
                  namespace InfosLabels,
         concurrentConnections = NewGauge ''concurrent_connections'' ''Kibana Concurrent Connections'' namespace,
         uptime = NewGauge ''millis_uptime'' ''Kibana uptime in milliseconds'' namespace,
         heapTotal = NewGauge ''heap_max_in_bytes'' ''Kibana Heap maximum in bytes'' namespace,
         heapUsed = NewGauge ''heap_used_in_bytes'' ''Kibana Heap usage in bytes'' namespace,
         load1m = NewGauge ''os_load_1m'' ''Kibana load average 1m'' namespace,
         load5m = NewGauge ''os_load_5m'' ''Kibana load average 5m'' namespace,
         load15m = NewGauge ''os_load_15m'' ''Kibana load average 15m'' namespace,
         respTimeAvg = NewGauge ''response_average'' ''Kibana average response time in milliseconds'' namespace,
         respTimeMax = NewGauge ''response_max'' ''Kibana maximum response time in milliseconds'' namespace,
         reqDisconnects = NewGauge ''requests_disconnects'' ''Kibana request disconnections count'' namespace,
         reqTotal = NewGauge ''requests_total'' ''Kibana total request count'' namespace\<rparr>
      in case buildKibanaByName h (Collectors exporter') Map.empty of
           Inl p \<Rightarrow> Inl p
         | Inr m \<Rightarrow> Inr (exporter'\<lparr>KibanaByName := m\<rparr>, None))"

definition SetTarget :: "addr option \<Rightarrow> Exporter \<Rightarrow> Exporter \<times> string option" where
  "SetTarget target' e = (e\<lparr>target := target'\<rparr>, None)"

text \<open>\<open>FindTarget\<close>: the map lookup gives nil for a name that is not a key.\<close>

definition FindTarget :: "Exporter \<Rightarrow> string \<Rightarrow> addr option" where
  "FindTarget e target' = KibanaByName e target'"

section \<open>Scraping and collecting\<close>

definition Log :: "level \<Rightarrow> string \<Rightarrow> world \<Rightarrow> world" where
  "Log lvl msg w = w\<lparr>logger := logger w @ [(lvl, msg)]\<rparr>"

text \<open>The assignment \<open>c.State = b\<close> through the pointer \<open>c\<close>.\<close>

definition setState :: "addr \<Rightarrow> bool \<Rightarrow> world \<Rightarrow> world" where
  "setState c b w = w\<lparr>heap := (heap w)(c := (heap w c)\<lparr>State := b\<rparr>)\<rparr>"

text \<open>
  \<open>scrape\<close> on the collector at address \<open>c\<close>: the world after the call and Go's pair of
  the returned pointer (\<open>None\<close> is nil) and the returned error (its message).
\<close>

definition scrape :: "env \<Rightarrow> addr \<Rightarrow> world \<Rightarrow> world \<times> KibanaMetrics option \<times> string option" where
  "scrape ev c w0 =
     (let w = Log Debug ''building request for api/status from kibana'' w0;
          url' = Url (kibana (heap w c)) @ ''/api/status''
      in case NewRequest_err ev ''GET'' url' of
           Some err \<Rightarrow>
             (w, None, Some (''could not initialize a request to scrape metrics: '' @ err))
         | None \<Rightarrow>
             let req = \<lparr>Method = ''GET'', URL = url', Header = []\<rparr>;
                 (req, w) =
                   (if authHeader (heap w c) \<noteq> ''''
                    then (req\<lparr>Header := Header req @ [(''Authorization'', authHeader (heap w c))]\<rparr>,
                          Log Debug ''adding auth header'' w)
                    else (req, w));
                 req = req\<lparr>Header := Header req @ [(''Accept'', ''application/json'')]\<rparr>;
                 w = Log Debug ''requesting api/status from kibana'' w
             in case Do ev (client (heap w c)) req of
                  Inl err \<Rightarrow>
                    (setState c False w, None, Some (''error while reading Kibana status: '' @ err))
                | Inr resp \<Rightarrow>
                    let w = setState c True w;
                        w = Log Debug ''processing api/status response'' w
                    in if StatusCode resp \<noteq> 200
                       then (setState c False w, None,
                             Some (''invalid response from Kibana status: '' @ Status resp))
                       else case Body resp of
                              Inl err \<Rightarrow>
                                (w, None,
                                 Some (''error while reading response from Kibana status: '' @ err))
                            | Inr respContent \<Rightarrow>
                                (case Unmarshal ev respContent of
                                   Inl err \<Rightarrow>
                                     (w, None,
                                      Some (''error while unmarshalling Kibana status: '' @ err
                                            @ [CHR 0x0A] @ ''Problematic content:'' @ [CHR 0x0A]
                                            @ respContent))
                                 | Inr metrics \<Rightarrow> (w, metrics, None)))"

text \<open>
  \<open>parseMetrics\<close> reads the fields of \<open>m\<close> through the pointer; through a nil pointer
  the first read, \<open>m.Status.Overall.State\<close>, panics.
\<close>

definition parseMetrics :: "KibanaMetrics option \<Rightarrow> world \<Rightarrow> panic + (world \<times> string option)" where
  "parseMetrics mp w0 =
     (let w = Log Debug ''parsing received metrics from kibana'' w0
      in case mp of
           None \<Rightarrow> Inl NilPointerDereference
         | Some m \<Rightarrow>
             let statusVal = (if ToLower (Overall_State m) = ''green'' then 1 else 0 :: real);
                 e = exporter w;
                 e = e\<lparr>status := Set (status e) statusVal\<rparr>;
                 e = (if statusVal = 1
                      then
                        let labels = [Version m, Sprintf_d (Build m)]
                        in e\<lparr>info := WithLabelValues_Set (info e) labels 1,
                             concurrentConnections := Set (concurrentConnections e) (float64 (ConcurrentConnections m)),
                             uptime := Set (uptime e) (UptimeInMillis m),
                             heapTotal := Set (heapTotal e) (float64 (TotalInBytes m)),
                             heapUsed := Set (heapUsed e) (float64 (UsedInBytes m)),
                             load1m := Set (load1m e) (Load1m m),
                             load5m := Set (load5m e) (Load5m m),
                             load15m := Set (load15m e) (Load15m m),
                             respTimeAvg := Set (respTimeAvg e) (AvgInMillis m),
                             respTimeMax := Set (respTimeMax e) (MaxInMillis m),
                             reqDisconnects := Set (reqDisconnects e) (float64 (Disconnects m)),
                             reqTotal := Set (reqTotal e) (float64 (Requests_Total m))\<rparr>
                      else e)
             in Inr (w\<lparr>exporter := e\<rparr>, None))"

text \<open>The secondary gauges in the order in which \<open>send\<close> writes them after \<open>info\<close>.\<close>

definition secondary :: "Exporter \<Rightarrow> Gauge list" where
  "secondary e =
     [concurrentConnections e, uptime e, heapTotal e, heapUsed e, load1m e, load5m e,
      load15m e, respTimeAvg e, respTimeMax e, reqDisconnects e, reqTotal e]"

text \<open>\<open>send\<close>: the metrics written to the channel, in order, and the returned error.
  The environment gives the order of the range in \<open>e.info.Collect(ch)\<close>.\<close>

definition send :: "env \<Rightarrow> world \<Rightarrow> panic + (Metric list \<times> string option)" where
  "send ev w =
     (let e = exporter w;
          ch = [gaugeMetric (status e)]
      in case target e of
           None \<Rightarrow> Inl NilPointerDereference
         | Some t \<Rightarrow>
             if State (heap w t)
             then Inr (ch @ vecCollect (mapOrder ev) (info e) @ map gaugeMetric (secondary e), None)
             else Inr (ch, None))"

text \<open>
  \<open>Collect\<close> (here \<open>Collect'\<close>, the plain name being that of set comprehension):
  a panic, or the world after the call together with the metrics written to the channel.  The lock is taken for the whole call; calls are modelled one at a time.
  The debug entry of the marshalled metrics is recorded by its message only.
\<close>

definition Collect' :: "env \<Rightarrow> world \<Rightarrow> panic + (world \<times> Metric list)" where
  "Collect' ev w0 =
     (let w = Log Debug ''a Collect() call received'' w0;
          w = Log Debug ''issueing a scrape() call to the collector'' w
      in case target (exporter w) of
           None \<Rightarrow> Inr (Log Error ''target not set: Can't scrape.'' w, [])
         | Some t \<Rightarrow>
             let (w, metrics, err) = scrape ev t w;
                 w = (case err of
                        Some msg \<Rightarrow> Log Error (''error while scraping metrics from Kibana: '' @ msg) w
                      | None \<Rightarrow> w);
                 r = (if State (heap w t)
                      then
                        let w = (if debug (exporter w)
                                 then (case Marshal ev metrics of
                                         Inl msg \<Rightarrow> Log Error (''error convert to json: '' @ msg) w
                                       | Inr res \<Rightarrow> Log Debug ''returned metrics content'' w)
                                 else w)
                        in case parseMetrics metrics w of
                             Inl p \<Rightarrow> Inl p
                           | Inr (w, err) \<Rightarrow>
                               (case err of
                                  Some msg \<Rightarrow>
                                    Inr (Log Error (''error while parsing metrics from Kibana: '' @ msg) w, True)
                                | None \<Rightarrow> Inr (w, False))
                      else Inr (w\<lparr>exporter := (exporter w)\<lparr>status := Set (status (exporter w)) 0\<rparr>\<rparr>, False))
             in case r of
                  Inl p \<Rightarrow> Inl p
                | Inr (w, returned) \<Rightarrow>
                    if returned then Inr (w, [])
                    else case send ev w of
                           Inl p \<Rightarrow> Inl p
                         | Inr (ch, err) \<Rightarrow>
                             (case err of
                                Some msg \<Rightarrow>
                                  Inr (Log Error (''error while responding to Prometheus with metrics: '' @ msg) w, ch)
                              | None \<Rightarrow> Inr (w, ch)))"


section \<open>The request handler of main\<close>

text \<open>\<open>exporter.Collectors[0]\<close>: indexing an empty slice panics.\<close>

definition index0 :: "'a list \<Rightarrow> panic + 'a" where
  "index0 xs = (case xs of [] \<Rightarrow> Inl IndexOutOfRange | x # _ \<Rightarrow> Inr x)"

text \<open>
  \<open>handler\<close>, for the value of the query parameter \<open>target\<close>: it binds a collector and
  serves the request from a fresh registry holding the exporter, which gathers by calling
  \<open>Collect\<close> once.
\<close>

definition handler :: "env \<Rightarrow> string \<Rightarrow> world \<Rightarrow> panic + (world \<times> Metric list)" where
  "handler ev target' w =
     (let bound =
            (if target' = ''''
             then (case index0 (Collectors (exporter w)) of
                     Inl p \<Rightarrow> Inl p
                   | Inr c \<Rightarrow> Inr (fst (SetTarget c (exporter w))))
             else (case index0 (Collectors (exporter w)) of
                     Inl p \<Rightarrow> Inl p
                   | Inr c \<Rightarrow> Inr (fst (SetTarget c (exporter w)))))
      in case bound of
           Inl p \<Rightarrow> Inl p
         | Inr e \<Rightarrow> Collect' ev (w\<lparr>exporter := e\<rparr>))"

section \<open>Concrete configurations, worlds and environments\<close>

text \<open>The configuration \<open>main\<close> builds for the flag \<open>kibana.uri\<close>, before it calls
  \<open>SetDefault\<close>: the name \<open>default\<close>, the credentials of the flags, all else zero.\<close>

definition cliConfig :: "string \<Rightarrow> string \<Rightarrow> KibanaConfig" where
  "cliConfig username password =
     \<lparr>Name = ''default'', Protocol = '''', Host = '''', Port = '''',
      Username = username, Password = password, Skip = '''', Wait = '''',
      uri = '''', skip = False, wait = False\<rparr>"

text \<open>A configuration as the YAML loader leaves it for a record that gives a name and
  the two boolean-like fields.\<close>

definition yamlConfig :: "string \<Rightarrow> string \<Rightarrow> string \<Rightarrow> KibanaConfig" where
  "yamlConfig name' skipTls wait' = (cliConfig '''' '''')\<lparr>Name := name', Skip := skipTls, Wait := wait'\<rparr>"

text \<open>The collector of a configuration in the file with the given name, after \<open>check\<close>.\<close>

definition namedCollector :: "string \<Rightarrow> KibanaCollector" where
  "namedCollector name' = fst (NewCollector (fst (check (yamlConfig name' '''' ''''))) [])"

text \<open>A store with the collector of target \<open>a\<close> at address 0 and that of target \<open>b\<close>
  at every other address, and the exporter \<open>main\<close> builds over the two.\<close>

definition demoHeap :: "addr \<Rightarrow> KibanaCollector" where
  "demoHeap = (\<lambda>_. namedCollector ''b'')(0 := namedCollector ''a'')"

definition demoExporter :: Exporter where
  "demoExporter = fst (projr (NewExporter ''kibana'' [Some 0, Some 1] False demoHeap))"

text \<open>The world at the start of a cycle: with no target bound yet, and with the first
  collector bound.\<close>

definition unboundWorld :: world where
  "unboundWorld = \<lparr>heap = demoHeap, exporter = demoExporter, logger = []\<rparr>"

definition boundWorld :: world where
  "boundWorld = unboundWorld\<lparr>exporter := fst (SetTarget (Some 0) demoExporter)\<rparr>"

text \<open>An environment in which every request can be built, \<open>client.Do\<close> gives \<open>outcome\<close>
  and \<open>json.Unmarshal\<close> gives \<open>decoded\<close>.\<close>

definition envOf :: "string + Response \<Rightarrow> string + KibanaMetrics option \<Rightarrow> env" where
  "envOf outcome decoded =
     \<lparr>NewRequest_err = (\<lambda>_ _. None), Do = (\<lambda>_ _. outcome),
      Unmarshal = (\<lambda>_. decoded), Marshal = (\<lambda>_. Inr ''{}''), mapOrder = (\<lambda>_. 0)\<rparr>"

definition ok200 :: "string \<Rightarrow> string + Response" where
  "ok200 content = Inr \<lparr>StatusCode = 200, Status = ''200 OK'', Body = Inr content\<rparr>"

definition envRefused :: env where
  "envRefused = envOf (Inl ''dial tcp 127.0.0.1:5601: connect: connection refused'') (Inr None)"

definition envUnavailable :: env where
  "envUnavailable =
     envOf (Inr \<lparr>StatusCode = 503, Status = ''503 Service Unavailable'',
                 Body = Inr ''Kibana server is not ready yet''\<rparr>) (Inr None)"

definition envNotJSON :: env where
  "envNotJSON =
     envOf (ok200 ''<html></html>'') (Inl ''invalid character '<' looking for beginning of value'')"

definition payload :: "string \<Rightarrow> KibanaMetrics" where
  "payload state =
     \<lparr>Version = ''7.17.1'', Build = 46635, Overall_State = state, ConcurrentConnections = 3,
      UptimeInMillis = 1000, TotalInBytes = 200, UsedInBytes = 100,
      Load1m = 1, Load5m = 2, Load15m = 3, AvgInMillis = 4, MaxInMillis = 5,
      Disconnects = 6, Requests_Total = 7\<rparr>"

definition envState :: "string \<Rightarrow> env" where
  "envState state = envOf (ok200 ''{}'') (Inr (Some (payload state)))"


section \<open>Auxiliary notions for the proofs\<close>

text \<open>The three defaults of \<open>check\<close> in one step, and the parse of a boolean-like
  field that may be empty.\<close>

definition fill :: "KibanaConfig \<Rightarrow> KibanaConfig" where
  "fill c = c\<lparr>Protocol := (if Protocol c = '''' then ''http'' else Protocol c),
              Host := (if Host c = '''' then ''localhost'' else Host c),
              Port := (if Port c = '''' then ''5601'' else Port c)\<rparr>"

definition parseField :: "string \<Rightarrow> bool \<times> error option" where
  "parseField s = (if s = '''' then (False, None) else parseBool s)"

text \<open>The strings that \<open>parseBool\<close> accepts after lowering, with their values.\<close>

definition accepted :: "(string \<times> bool) list" where
  "accepted =
     [(''yes'', True), (''no'', False), (''true'', True), (''false'', False),
      (''1'', True), (''0'', False), (''t'', True), (''f'', False)]"

text \<open>The request \<open>scrape\<close> builds for a collector, the world just before
  \<open>client.Do\<close> is called and just after it has returned a response, and the error of a
  failed or refused request.\<close>

definition scrapeRequest :: "KibanaCollector \<Rightarrow> Request" where
  "scrapeRequest c =
     \<lparr>Method = ''GET'', URL = Url (kibana c) @ ''/api/status'',
      Header = (if authHeader c \<noteq> '''' then [(''Authorization'', authHeader c)] else [])
               @ [(''Accept'', ''application/json'')]\<rparr>"

definition beforeDo :: "addr \<Rightarrow> world \<Rightarrow> world" where
  "beforeDo c w =
     Log Debug ''requesting api/status from kibana''
       ((if authHeader (heap w c) \<noteq> '''' then Log Debug ''adding auth header'' else id)
          (Log Debug ''building request for api/status from kibana'' w))"

definition afterDo :: "addr \<Rightarrow> world \<Rightarrow> world" where
  "afterDo c w = Log Debug ''processing api/status response'' (setState c True (beforeDo c w))"

definition transportError :: "string + Response \<Rightarrow> string" where
  "transportError outcome =
     (case outcome of
        Inl err \<Rightarrow> ''error while reading Kibana status: '' @ err
      | Inr resp \<Rightarrow> ''invalid response from Kibana status: '' @ Status resp)"

text \<open>The world in which \<open>Collect\<close> calls \<open>scrape\<close>.\<close>

definition entered :: "world \<Rightarrow> world" where
  "entered w =
     Log Debug ''issueing a scrape() call to the collector'' (Log Debug ''a Collect() call received'' w)"


text \<open>The exporter after \<open>parseMetrics\<close> has mapped a payload into its gauges.\<close>

definition mapped :: "KibanaMetrics \<Rightarrow> Exporter \<Rightarrow> Exporter" where
  "mapped m e =
     (if ToLower (Overall_State m) = ''green''
      then e\<lparr>status := Set (status e) 1,
             info := WithLabelValues_Set (info e) [Version m, Sprintf_d (Build m)] 1,
             concurrentConnections := Set (concurrentConnections e) (float64 (ConcurrentConnections m)),
             uptime := Set (uptime e) (UptimeInMillis m),
             heapTotal := Set (heapTotal e) (float64 (TotalInBytes m)),
             heapUsed := Set (heapUsed e) (float64 (UsedInBytes m)),
             load1m := Set (load1m e) (Load1m m),
             load5m := Set (load5m e) (Load5m m),
             load15m := Set (load15m e) (Load15m m),
             respTimeAvg := Set (respTimeAvg e) (AvgInMillis m),
             respTimeMax := Set (respTimeMax e) (MaxInMillis m),
             reqDisconnects := Set (reqDisconnects e) (float64 (Disconnects m)),
             reqTotal := Set (reqTotal e) (float64 (Requests_Total m))\<rparr>
      else e\<lparr>status := Set (status e) 0\<rparr>)"


section \<open>Properties of package config\<close>

lemmas string_defs = ToLower_def ToLower_byte_def HasPrefix_def

lemmas config_defs = parseBool_def ParseBool_def check_def url_def cliConfig_def yamlConfig_def
  SetDefault_def FindStringSubmatch_def hostPort_def isDigit_def Url_def SkipTls_def

subsection \<open>Lowering never yields a capital letter\<close>

lemma ToLower_byte_not_upper: "ToLower_byte c \<notin> set ''ABCDEFGHIJKLMNOPQRSTUVWXYZ''"
  by (simp add: ToLower_byte_def)

lemma ToLower_not_upper:
  assumes "u \<in> set ''ABCDEFGHIJKLMNOPQRSTUVWXYZ''" and "u \<in> set s"
  shows "ToLower v \<noteq> s"
proof
  assume "ToLower v = s"
  with assms(2) obtain c where "u = ToLower_byte c" by (auto simp: ToLower_def)
  with assms(1) ToLower_byte_not_upper [of c] show False by simp
qed

lemma ToLower_literals:
  "ToLower v \<noteq> ''T''" "ToLower v \<noteq> ''TRUE''" "ToLower v \<noteq> ''True''"
  "ToLower v \<noteq> ''F''" "ToLower v \<noteq> ''FALSE''" "ToLower v \<noteq> ''False''"
  using ToLower_not_upper [of "CHR ''T''" "''T''" v] ToLower_not_upper [of "CHR ''T''" "''TRUE''" v]
    ToLower_not_upper [of "CHR ''T''" "''True''" v] ToLower_not_upper [of "CHR ''F''" "''F''" v]
    ToLower_not_upper [of "CHR ''F''" "''FALSE''" v] ToLower_not_upper [of "CHR ''F''" "''False''" v]
  by simp_all

subsection \<open>\<open>parseBool\<close> and \<open>check\<close> in closed form\<close>

lemma parseBool_lowered:
  "parseBool v =
     (case map_of accepted (ToLower v) of
        Some b \<Rightarrow> (b, None)
      | None \<Rightarrow> (False, Some (NumError ''ParseBool'' (ToLower v) ''invalid syntax'')))"
  by (simp add: parseBool_def ParseBool_def accepted_def Let_def ToLower_literals)

lemma check_unfold:
  "check c =
    (if Name c = '''' then (c, Some (Errorf ''config must have the field name set''))
     else if snd (parseField (Skip c)) \<noteq> None
       then (fill c\<lparr>skip := fst (parseField (Skip c))\<rparr>, snd (parseField (Skip c)))
     else if snd (parseField (Wait c)) \<noteq> None
       then (fill c\<lparr>skip := fst (parseField (Skip c)), wait := fst (parseField (Wait c))\<rparr>,
             snd (parseField (Wait c)))
     else (fill c\<lparr>skip := fst (parseField (Skip c)), wait := fst (parseField (Wait c)),
                   uri := url (fill c)\<rparr>, None))"
  by (cases "Skip c = ''''"; cases "Wait c = ''''"; cases "Protocol c = ''''";
      cases "Host c = ''''"; cases "Port c = ''''";
      simp add: check_def fill_def parseField_def url_def Let_def split_beta)

lemma check_yes:
  "check (yamlConfig ''a'' ''Yes'' ''0'') =
     (\<lparr>Name = ''a'', Protocol = ''http'', Host = ''localhost'', Port = ''5601'',
       Username = '''', Password = '''', Skip = ''Yes'', Wait = ''0'',
       uri = ''http://localhost:5601'', skip = True, wait = False\<rparr>, None)"
  by (simp add: string_defs config_defs Let_def)

subsection \<open>Claim C7\<close>

text \<open>
  C7.  For every target configuration accepted by validation, the default-filling
  validation step is idempotent: when \<open>check\<close> returns no error and leaves the profile
  \<open>c'\<close>, a second \<open>check\<close> on \<open>c'\<close> returns no error and leaves every field of \<open>c'\<close>,
  the derived base URL \<open>uri\<close> included, as it is.
\<close>

theorem check_idempotent: "check c = (c', None) \<Longrightarrow> check c' = (c', None)"
proof -
  assume a: "check c = (c', None)"
  have n: "Name c \<noteq> ''''"
    using a by (auto simp: check_unfold)
  have s: "snd (parseField (Skip c)) = None"
    using a n by (auto simp: check_unfold split: if_splits)
  have w: "snd (parseField (Wait c)) = None"
    using a n s by (auto simp: check_unfold split: if_splits)
  have c': "c' = fill c\<lparr>skip := fst (parseField (Skip c)), wait := fst (parseField (Wait c)),
                        uri := url (fill c)\<rparr>"
    using a n s w by (simp add: check_unfold)
  have f: "fill c' = c'"
    by (simp add: c' fill_def)
  show ?thesis
    apply (subst check_unfold)
    apply (simp only: f)
    apply (simp add: c' n s w fill_def url_def)
    done
qed

theorem check_idempotent_witness:
  "check (yamlConfig ''a'' ''Yes'' ''0'') = (fst (check (yamlConfig ''a'' ''Yes'' ''0'')), None) \<and>
   check (fst (check (yamlConfig ''a'' ''Yes'' ''0''))) =
     (fst (check (yamlConfig ''a'' ''Yes'' ''0'')), None)"
proof -
  have h: "check (yamlConfig ''a'' ''Yes'' ''0'') = (fst (check (yamlConfig ''a'' ''Yes'' ''0'')), None)"
    by (simp add: check_yes)
  show ?thesis using h check_idempotent [OF h] by simp
qed

subsection \<open>Claim C9\<close>

text \<open>
  C9, as the code has it.  For every string value of the boolean-like fields \<open>skip-tls\<close>
  and \<open>wait\<close>, parsing succeeds exactly when the value is a case-insensitive match of
  one of yes, no, true, false, 1, 0, t, f, and it then yields the corresponding boolean;
  validation fails with an error for every other non-empty string in either field.
  The words \<open>t\<close> and \<open>f\<close> come with \<open>strconv.ParseBool\<close>, to which \<open>parseBool\<close> hands
  the lowered value.
\<close>

theorem parseBool_accepted:
  "(snd (parseBool v) = None \<longleftrightarrow> ToLower v \<in> fst ` set accepted) \<and>
   (map_of accepted (ToLower v) = Some b \<longrightarrow> parseBool v = (b, None)) \<and>
   (v \<noteq> '''' \<and> ToLower v \<notin> fst ` set accepted \<and> (Skip c = v \<or> Wait c = v)
      \<longrightarrow> snd (check c) \<noteq> None)"
proof (intro conjI impI)
  show "snd (parseBool v) = None \<longleftrightarrow> ToLower v \<in> fst ` set accepted"
    by (simp add: parseBool_lowered accepted_def)
next
  assume "map_of accepted (ToLower v) = Some b"
  then show "parseBool v = (b, None)"
    by (simp add: parseBool_lowered)
next
  assume a: "v \<noteq> '''' \<and> ToLower v \<notin> fst ` set accepted \<and> (Skip c = v \<or> Wait c = v)"
  then have "snd (parseBool v) \<noteq> None"
    by (simp add: parseBool_lowered accepted_def)
  with a have "snd (parseField (Skip c)) \<noteq> None \<or> snd (parseField (Wait c)) \<noteq> None"
    by (auto simp: parseField_def)
  then show "snd (check c) \<noteq> None"
    by (auto simp: check_unfold)
qed

theorem parseBool_accepted_witness:
  "ToLower ''YES'' \<in> fst ` set accepted \<and> snd (parseBool ''YES'') = None \<and>
   map_of accepted (ToLower ''No'') = Some False \<and> parseBool ''No'' = (False, None) \<and>
   ''maybe'' \<noteq> '''' \<and> ToLower ''maybe'' \<notin> fst ` set accepted \<and>
   Wait (yamlConfig ''a'' '''' ''maybe'') = ''maybe'' \<and>
   snd (check (yamlConfig ''a'' '''' ''maybe'')) \<noteq> None"
  using parseBool_accepted [of "''YES''" True "yamlConfig ''a'' '''' ''maybe''"]
    parseBool_accepted [of "''No''" False "yamlConfig ''a'' '''' ''maybe''"]
    parseBool_accepted [of "''maybe''" True "yamlConfig ''a'' '''' ''maybe''"]
  by (simp add: string_defs accepted_def yamlConfig_def)

text \<open>
  The value \<open>t\<close> is none of the six words yes, no, true, false, 1, 0, in any case of
  letters; \<open>parseBool\<close> accepts it, and so does the validation of a record whose
  \<open>skip-tls\<close> is \<open>t\<close> and whose \<open>wait\<close> is \<open>F\<close>.
\<close>

theorem parseBool_t_counterexample:
  "ToLower ''t'' \<notin> set [''yes'', ''no'', ''true'', ''false'', ''1'', ''0''] \<and>
   parseBool ''t'' = (True, None) \<and>
   snd (check (yamlConfig ''a'' ''t'' ''F'')) = None"
  by (simp add: string_defs config_defs Let_def)

subsection \<open>Claim C8\<close>

text \<open>The URL of the round trip, with its port: scheme, host and port are taken from it.\<close>

lemma SetDefault_roundtrip:
  "fst (SetDefault (cliConfig '''' '''') ''https://example.org:9201'' False False) =
     (cliConfig '''' '''')\<lparr>Protocol := ''https'', Host := ''example.org'', Port := ''9201'',
                            uri := ''https://example.org:9201''\<rparr>"
  by (simp add: string_defs config_defs Let_def)

text \<open>
  C8.  Constructing a profile from a URL string via \<open>SetDefault\<close> parses it with the
  pattern scheme://host[:port], the port being optional, and overrides scheme, host and
  port from the URL.  The code does so only for a URL with a port: the pattern requires
  the colon and the digits, so for \<open>https://example.org\<close> there is no match, the three
  fields keep the empty values \<open>main\<close> gave them, and \<open>NewCollector\<close>, which looks at
  \<open>Protocol\<close>, builds the plain client without the requested TLS policy.
\<close>

theorem SetDefault_without_port:
  "FindStringSubmatch ''https://example.org'' = None \<and>
   SetDefault (cliConfig '''' '''') ''https://example.org'' True False =
     ((cliConfig '''' '''')\<lparr>uri := ''https://example.org'', skip := True\<rparr>, None) \<and>
   Protocol (fst (SetDefault (cliConfig '''' '''') ''https://example.org'' True False)) = '''' \<and>
   Host (fst (SetDefault (cliConfig '''' '''') ''https://example.org'' True False)) = '''' \<and>
   Port (fst (SetDefault (cliConfig '''' '''') ''https://example.org'' True False)) = '''' \<and>
   client (fst (NewCollector (fst (SetDefault (cliConfig '''' '''') ''https://example.org'' True False)) []))
     = PlainClient"
  by (simp add: string_defs config_defs NewCollector_def Let_def)


section \<open>Properties of the collector\<close>

subsection \<open>Claim C6\<close>

text \<open>
  C6.  For every profile passed to \<open>NewCollector\<close>: if the username or the password (or
  both) is empty, the stored auth header is the empty string; if both are non-empty, it
  is \<open>Basic\<close>, a space, and the base64 encoding of \<open>username:password\<close>.  In both cases
  it does not depend on the scheme: replacing \<open>Protocol\<close> by any \<open>p\<close> leaves it the same.
\<close>

theorem NewCollector_authHeader:
  "(Username k = '''' \<or> Password k = '''' \<longrightarrow> authHeader (fst (NewCollector k lg)) = '''') \<and>
   (Username k \<noteq> '''' \<and> Password k \<noteq> '''' \<longrightarrow>
      authHeader (fst (NewCollector k lg)) =
        ''Basic '' @ EncodeToString (Username k @ '':'' @ Password k)) \<and>
   authHeader (fst (NewCollector (k\<lparr>Protocol := p\<rparr>) lg)) = authHeader (fst (NewCollector k lg))"
  by (simp add: NewCollector_def Let_def split_beta)

theorem NewCollector_authHeader_witness:
  "Username (cliConfig ''kibanau'' '''') \<noteq> '''' \<and> Password (cliConfig ''kibanau'' '''') = '''' \<and>
   authHeader (fst (NewCollector (cliConfig ''kibanau'' '''') [])) = '''' \<and>
   Username (cliConfig ''kibanau'' ''kibanap'') \<noteq> '''' \<and>
   Password (cliConfig ''kibanau'' ''kibanap'') \<noteq> '''' \<and>
   authHeader (fst (NewCollector (cliConfig ''kibanau'' ''kibanap'') [])) =
     ''Basic a2liYW5hdTpraWJhbmFw'' \<and>
   authHeader (fst (NewCollector ((cliConfig ''kibanau'' ''kibanap'')\<lparr>Protocol := ''https''\<rparr>) [])) =
     ''Basic a2liYW5hdTpraWJhbmFw''"
  using NewCollector_authHeader [of "cliConfig ''kibanau'' ''''" "[]" "''https''"]
    NewCollector_authHeader [of "cliConfig ''kibanau'' ''kibanap''" "[]" "''https''"]
  by (simp add: cliConfig_def EncodeToString_def encodeStd_def)

section \<open>Properties of the exporter\<close>

subsection \<open>What logging and the assignments to \<open>State\<close> leave alone\<close>

lemma heap_Log [simp]: "heap (Log l m w) = heap w"
  by (simp add: Log_def)
lemma exporter_Log [simp]: "exporter (Log l m w) = exporter w"
  by (simp add: Log_def)
lemma logger_Log [simp]: "logger (Log l m w) = logger w @ [(l, m)]"
  by (simp add: Log_def)
lemma exporter_setState [simp]: "exporter (setState c b w) = exporter w"
  by (simp add: setState_def)
lemma logger_setState [simp]: "logger (setState c b w) = logger w"
  by (simp add: setState_def)
lemma State_setState [simp]: "State (heap (setState c b w) c) = b"
  by (simp add: setState_def)
lemma heap_beforeDo [simp]: "heap (beforeDo c w) = heap w"
  by (simp add: beforeDo_def)
lemma exporter_beforeDo [simp]: "exporter (beforeDo c w) = exporter w"
  by (simp add: beforeDo_def)
lemma exporter_afterDo [simp]: "exporter (afterDo c w) = exporter w"
  by (simp add: afterDo_def)
lemma State_afterDo [simp]: "State (heap (afterDo c w) c) = True"
  by (simp add: afterDo_def)
lemma heap_entered [simp]: "heap (entered w) = heap w"
  by (simp add: entered_def)
lemma exporter_entered [simp]: "exporter (entered w) = exporter w"
  by (simp add: entered_def)
lemma logger_entered [simp]: "logger (entered w) = logger w @ [(Debug, ''a Collect() call received''), (Debug, ''issueing a scrape() call to the collector'')]"
  by (simp add: entered_def)

subsection \<open>\<open>scrape\<close> by the outcome of the request\<close>

lemma scrape_unfold:
  assumes "NewRequest_err ev ''GET'' (URL (scrapeRequest (heap w c))) = None"
  shows "scrape ev c w =
    (case Do ev (client (heap w c)) (scrapeRequest (heap w c)) of
       Inl err \<Rightarrow> (setState c False (beforeDo c w), None, Some (''error while reading Kibana status: '' @ err))
     | Inr resp \<Rightarrow>
         if StatusCode resp \<noteq> 200
         then (setState c False (afterDo c w), None, Some (''invalid response from Kibana status: '' @ Status resp))
         else case Body resp of
                Inl err \<Rightarrow> (afterDo c w, None, Some (''error while reading response from Kibana status: '' @ err))
              | Inr respContent \<Rightarrow>
                  (case Unmarshal ev respContent of
                     Inl err \<Rightarrow> (afterDo c w, None,
                        Some (''error while unmarshalling Kibana status: '' @ err
                              @ [CHR 0x0A] @ ''Problematic content:'' @ [CHR 0x0A] @ respContent))
                   | Inr metrics \<Rightarrow> (afterDo c w, metrics, None)))"
  using assms
  by (cases "authHeader (heap w c) = ''''")
     (simp_all add: scrape_def scrapeRequest_def beforeDo_def afterDo_def Let_def split: sum.splits)


subsection \<open>Claim C4\<close>

text \<open>
  C4, as the code has it.  For every collection cycle invoked while no target is bound
  (the target pointer is nil), the cycle logs the error \<open>target not set: Can't scrape.\<close>
  after its two debug entries and returns at once: it writes no metric to the channel,
  not even the overall-status gauge, and changes neither a gauge nor a collector.
\<close>

theorem Collect_unbound:
  "target (exporter w) = None \<Longrightarrow>
   Collect' ev w =
     Inr (w\<lparr>logger := logger w @
             [(Debug, ''a Collect() call received''),
              (Debug, ''issueing a scrape() call to the collector''),
              (Error, ''target not set: Can't scrape.'')]\<rparr>, [])"
  by (simp add: Collect'_def Log_def Let_def)

text \<open>The exporter of the concrete world is the one \<open>NewExporter\<close> returns.\<close>

lemma demoExporter_eval:
  "NewExporter ''kibana'' [Some 0, Some 1] False demoHeap = Inr (demoExporter, None)"
  by (simp add: demoExporter_def NewExporter_def Let_def)

lemma target_unboundWorld: "target (exporter unboundWorld) = None"
  by (simp add: unboundWorld_def demoExporter_def NewExporter_def Let_def)

theorem Collect_unbound_witness:
  "target (exporter unboundWorld) = None \<and>
   Collect' envRefused unboundWorld =
     Inr (unboundWorld\<lparr>logger := logger unboundWorld @
             [(Debug, ''a Collect() call received''),
              (Debug, ''issueing a scrape() call to the collector''),
              (Error, ''target not set: Can't scrape.'')]\<rparr>, [])"
  using Collect_unbound [OF target_unboundWorld, of envRefused] target_unboundWorld by simp

text \<open>
  In the concrete world with no target bound the channel stays empty: the zero-valued
  overall-status gauge is not among the metrics of the cycle.
\<close>

theorem Collect_unbound_counterexample:
  "snd (projr (Collect' envRefused unboundWorld)) = [] \<and>
   gaugeMetric (status (exporter unboundWorld)) \<notin> set (snd (projr (Collect' envRefused unboundWorld)))"
  by (simp add: Collect'_def Log_def Let_def target_unboundWorld)

subsection \<open>Claim C3\<close>

text \<open>
  C3.  For every collection cycle in which the request of \<open>scrape\<close> cannot be sent
  (\<open>client.Do\<close> returns an error) or returns a status other than 200: the reachability
  flag \<open>State\<close> of the collector is false after \<open>scrape\<close>, which returns nil and an
  error (with the status line of the response when there is one); and the cycle does not
  panic, surfaces no error, logs the error of \<open>scrape\<close> last, sets the overall-status
  gauge to 0 and writes exactly that one gauge to the channel.
\<close>

theorem Collect_transport_failure:
  assumes "target (exporter w) = Some t"
    and "NewRequest_err ev ''GET'' (URL (scrapeRequest (heap w t))) = None"
    and "case Do ev (client (heap w t)) (scrapeRequest (heap w t)) of
           Inl err \<Rightarrow> True
         | Inr resp \<Rightarrow> StatusCode resp \<noteq> 200"
  shows "State (heap (fst (scrape ev t w)) t) = False \<and>
         snd (scrape ev t w) =
           (None, Some (transportError (Do ev (client (heap w t)) (scrapeRequest (heap w t))))) \<and>
         (case Collect' ev w of
            Inl p \<Rightarrow> False
          | Inr (w', ch) \<Rightarrow>
              ch = [\<lparr>metricName = fqName (status (exporter w)), labelPairs = [], gaugeValue = 0\<rparr>] \<and>
              State (heap w' t) = False \<and>
              val (status (exporter w')) = 0 \<and>
              last (logger w') =
                (Error, ''error while scraping metrics from Kibana: '' @
                   transportError (Do ev (client (heap w t)) (scrapeRequest (heap w t)))))"
proof -
  let ?out = "Do ev (client (heap w t)) (scrapeRequest (heap w t))"
  have here: "State (heap (fst (scrape ev t w)) t) = False \<and>
      snd (scrape ev t w) = (None, Some (transportError ?out))"
    using assms(3)
    by (cases ?out) (simp_all add: scrape_unfold [OF assms(2)] transportError_def)
  have req: "NewRequest_err ev ''GET'' (URL (scrapeRequest (heap (entered w) t))) = None"
    using assms(2) by simp
  obtain w1 where s: "scrape ev t (entered w) = (w1, None, Some (transportError ?out))"
    and st: "State (heap w1 t) = False" and ex: "exporter w1 = exporter w"
    using assms(3)
    by (cases ?out) (simp_all add: scrape_unfold [OF req] transportError_def)
  have "Collect' ev w =
      Inr ((Log Error (''error while scraping metrics from Kibana: '' @ transportError ?out) w1)
             \<lparr>exporter := (exporter w)\<lparr>status := Set (status (exporter w)) 0\<rparr>\<rparr>,
           [gaugeMetric (Set (status (exporter w)) 0)])"
    using assms(1) st ex
    by (simp add: Collect'_def entered_def [symmetric] s Let_def send_def)
  then show ?thesis
    using here st by (simp add: gaugeMetric_def Set_def Log_def)
qed

text \<open>The concrete worlds and environments, unfolded.\<close>

lemmas world_defs = boundWorld_def unboundWorld_def demoExporter_def demoHeap_def namedCollector_def
  NewExporter_def NewGauge_def NewGaugeVec_def BuildFQName_def SetTarget_def InfosLabels_def
  NewCollector_def
lemmas env_defs = envOf_def ok200_def envRefused_def envUnavailable_def envNotJSON_def envState_def

lemma boundWorld_target: "target (exporter boundWorld) = Some 0"
  by (simp add: world_defs Let_def)

lemma boundWorld_status: "status (exporter boundWorld) =
   \<lparr>fqName = ''kibana_status'', Help = ''Kibana overall status (0: down, 1:up)'', val = 0\<rparr>"
  by (simp add: world_defs Let_def)

theorem Collect_transport_failure_witness:
  "target (exporter boundWorld) = Some 0 \<and>
   NewRequest_err envUnavailable ''GET'' (URL (scrapeRequest (heap boundWorld 0))) = None \<and>
   StatusCode (projr (Do envUnavailable (client (heap boundWorld 0)) (scrapeRequest (heap boundWorld 0)))) = 503 \<and>
   snd (scrape envUnavailable 0 boundWorld) =
     (None, Some ''invalid response from Kibana status: 503 Service Unavailable'') \<and>
   State (heap (fst (scrape envUnavailable 0 boundWorld)) 0) = False \<and>
   snd (projr (Collect' envUnavailable boundWorld)) =
     [\<lparr>metricName = ''kibana_status'', labelPairs = [], gaugeValue = 0\<rparr>] \<and>
   State (heap (fst (projr (Collect' envUnavailable boundWorld))) 0) = False"
proof -
  have h2: "NewRequest_err envUnavailable ''GET'' (URL (scrapeRequest (heap boundWorld 0))) = None"
    by (simp add: env_defs)
  have h3: "case Do envUnavailable (client (heap boundWorld 0)) (scrapeRequest (heap boundWorld 0)) of
              Inl err \<Rightarrow> True | Inr resp \<Rightarrow> StatusCode resp \<noteq> 200"
    by (simp add: env_defs)
  show ?thesis
    using Collect_transport_failure [OF boundWorld_target h2 h3] boundWorld_target h2
    by (cases "Collect' envUnavailable boundWorld")
       (auto simp: env_defs transportError_def boundWorld_status)
qed

subsection \<open>Claim C1\<close>

text \<open>
  When the response has status 200 and its body cannot be read or decoded, \<open>scrape\<close>
  has set \<open>State\<close> to true before it returns nil with the error; \<open>Collect\<close> logs the
  error, finds \<open>State\<close> true and hands the nil pointer to \<open>parseMetrics\<close>.
\<close>

lemma Collect_decode_failure:
  assumes "target (exporter w) = Some t"
    and "NewRequest_err ev ''GET'' (URL (scrapeRequest (heap w t))) = None"
    and "Do ev (client (heap w t)) (scrapeRequest (heap w t)) = Inr resp"
    and "StatusCode resp = 200"
    and "case Body resp of Inl err \<Rightarrow> True | Inr content \<Rightarrow> isl (Unmarshal ev content)"
  shows "Collect' ev w = Inl NilPointerDereference"
proof -
  have req: "NewRequest_err ev ''GET'' (URL (scrapeRequest (heap (entered w) t))) = None"
    using assms(2) by simp
  obtain msg where s: "scrape ev t (entered w) = (afterDo t (entered w), None, Some msg)"
    using assms(3-5)
    by (cases "Body resp"; cases "Unmarshal ev (projr (Body resp))")
       (simp_all add: scrape_unfold [OF req])
  show ?thesis
    using assms(1)
    by (simp add: Collect'_def entered_def [symmetric] s Let_def parseMetrics_def)
qed

text \<open>
  C1.  For every collection cycle whose scrape fails, by transport or by decoding, the
  cycle propagates no error and no panic, forces the overall-status gauge to 0 and emits
  that gauge only.  For a target that answers 200 with a body that is not JSON the code
  does otherwise: \<open>scrape\<close> leaves \<open>State\<close> true and returns the decode error, and
  the cycle ends in the panic of a nil pointer dereference, with nothing emitted.
\<close>

theorem Collect_not_JSON:
  "State (heap (fst (scrape envNotJSON 0 boundWorld)) 0) = True \<and>
   snd (scrape envNotJSON 0 boundWorld) =
     (None, Some (''error while unmarshalling Kibana status: invalid character '<' looking for beginning of value''
                  @ [CHR 0x0A] @ ''Problematic content:'' @ [CHR 0x0A] @ ''<html></html>'')) \<and>
   Collect' envNotJSON boundWorld = Inl NilPointerDereference"
proof -
  have h2: "NewRequest_err envNotJSON ''GET'' (URL (scrapeRequest (heap boundWorld 0))) = None"
    by (simp add: env_defs)
  have "Collect' envNotJSON boundWorld = Inl NilPointerDereference"
    by (rule Collect_decode_failure [OF boundWorld_target h2, where resp = "projr (ok200 ''<html></html>'')"])
       (simp_all add: env_defs)
  then show ?thesis
    by (simp add: scrape_unfold [OF h2]) (simp add: env_defs)
qed

subsection \<open>Claim C5\<close>

text \<open>
  C5.  Constructing the exporter with an empty or invalid namespace fails with an error.
  The code never does: for the empty namespace and two collectors \<open>NewExporter\<close>
  returns an exporter, whose status gauge is then named \<open>status\<close>, and a nil error; on
  a slice whose first pointer is nil, as in the package's own test of this case, it
  panics while it fills \<open>KibanaByName\<close>.
\<close>

theorem NewExporter_empty_namespace:
  "(case NewExporter '''' [Some 0, Some 1] False demoHeap of
      Inl p \<Rightarrow> False
    | Inr (e, err) \<Rightarrow> err = None \<and> fqName (status e) = ''status'') \<and>
   NewExporter '''' [None, Some 0] False demoHeap = Inl NilPointerDereference"
  by (simp add: NewExporter_def NewGauge_def BuildFQName_def Let_def)

subsection \<open>Claim C2\<close>

text \<open>Integers of at most 53 bits are converted exactly.\<close>

lemma bitLen_le: "n < 2 ^ k \<Longrightarrow> bitLen n \<le> k"
proof (induction k arbitrary: n)
  case 0
  then show ?case by simp
next
  case (Suc k)
  show ?case
  proof (cases "n = 0")
    case True
    then show ?thesis by simp
  next
    case False
    from Suc.prems have "n div 2 < 2 ^ k" by simp
    from Suc.IH [OF this] False show ?thesis by (subst bitLen.simps) simp
  qed
qed

lemma float64_exact: "\<bar>n\<bar> < 2 ^ 53 \<Longrightarrow> float64 n = of_int n"
proof -
  assume "\<bar>n\<bar> < 2 ^ 53"
  then have "nat \<bar>n\<bar> < 2 ^ 53" by simp
  then have "bitLen (nat \<bar>n\<bar>) \<le> 53" by (rule bitLen_le)
  then show ?thesis by (simp add: float64_def Let_def)
qed

text \<open>Beyond 53 bits the conversion rounds: to the even neighbour on a tie, else to
  the nearer one.\<close>

lemma float64_rounds:
  "float64 9007199254740993 = 9007199254740992"
  "float64 9007199254740995 = 9007199254740996"
  "float64 (- 9007199254740997) = - 9007199254740996"
  by (simp_all add: float64_def Let_def)

text \<open>The range over the map of a vector visits every child once; a child that has been
  set is a child of the vector.\<close>

lemma mset_vecCollect:
  "mset (vecCollect order vec) = mset (map (childMetric vec) (children vec))"
  by (simp add: vecCollect_def)

lemma WithLabelValues_Set_child: "(lvs, v) \<in> set (children (WithLabelValues_Set vec lvs v))"
  by (force simp: WithLabelValues_Set_def)

lemma childMetric_in_vecCollect:
  "child \<in> set (children vec) \<Longrightarrow> childMetric vec child \<in> set (vecCollect order vec)"
  by (simp add: vecCollect_def)

text \<open>With two children, the one order and the other are both orders of a range.\<close>

lemma vecCollect_two_orders:
  "map fst (sort_key (\<lambda>child. (if fst child = [''7'', ''1''] then 0 else 1 :: nat))
      [([''7'', ''1''], 1 :: real), ([''8'', ''2''], 1)]) = [[''7'', ''1''], [''8'', ''2'']]"
  "map fst (sort_key (\<lambda>child. (if fst child = [''7'', ''1''] then 1 else 0 :: nat))
      [([''7'', ''1''], 1 :: real), ([''8'', ''2''], 1)]) = [[''8'', ''2''], [''7'', ''1'']]"
  by simp_all

text \<open>A decoded payload: \<open>parseMetrics\<close> maps it, and the cycle sends every gauge.\<close>

lemma parseMetrics_Some:
  "parseMetrics (Some m) w =
     Inr (w\<lparr>logger := logger w @ [(Debug, ''parsing received metrics from kibana'')],
           exporter := mapped m (exporter w)\<rparr>, None)"
  by (simp add: parseMetrics_def mapped_def Log_def Let_def)

lemma Collect_decoded_eq:
  assumes "target (exporter w) = Some t"
    and "NewRequest_err ev ''GET'' (URL (scrapeRequest (heap w t))) = None"
    and "Do ev (client (heap w t)) (scrapeRequest (heap w t)) = Inr resp"
    and "StatusCode resp = 200"
    and "Body resp = Inr content"
    and "Unmarshal ev content = Inr (Some m)"
  shows "\<exists>w'. Collect' ev w =
           Inr (w', gaugeMetric (status (exporter w')) # vecCollect (mapOrder ev) (info (exporter w'))
                      @ map gaugeMetric (secondary (exporter w'))) \<and>
         exporter w' = mapped m (exporter w)"
proof -
  have req: "NewRequest_err ev ''GET'' (URL (scrapeRequest (heap (entered w) t))) = None"
    using assms(2) by simp
  have s: "scrape ev t (entered w) = (afterDo t (entered w), Some m, None)"
    using assms(3-6) by (simp add: scrape_unfold [OF req])
  define w3 where "w3 =
     (if debug (exporter w)
      then (case Marshal ev (Some m) of
              Inl msg \<Rightarrow> Log Error (''error convert to json: '' @ msg) (afterDo t (entered w))
            | Inr res \<Rightarrow> Log Debug ''returned metrics content'' (afterDo t (entered w)))
      else afterDo t (entered w))"
  have ex3: "exporter w3 = exporter w"
    by (simp add: w3_def split: sum.splits)
  have st3: "State (heap w3 t) = True"
    by (simp add: w3_def split: sum.splits)
  obtain w4 where p: "parseMetrics (Some m) w3 = Inr (w4, None)"
    and ex4: "exporter w4 = mapped m (exporter w)"
    and st4: "State (heap w4 t) = True"
    using ex3 st3 by (simp add: parseMetrics_Some)
  have tg4: "target (exporter w4) = Some t"
    using assms(1) by (simp add: ex4 mapped_def)
  have sd: "send ev w4 =
      Inr (gaugeMetric (status (exporter w4)) # vecCollect (mapOrder ev) (info (exporter w4))
             @ map gaugeMetric (secondary (exporter w4)), None)"
    using tg4 st4 by (simp add: send_def Let_def)
  have "Collect' ev w =
      Inr (w4, gaugeMetric (status (exporter w4)) # vecCollect (mapOrder ev) (info (exporter w4))
             @ map gaugeMetric (secondary (exporter w4)))"
  proof (cases "debug (exporter w)")
    case False
    then show ?thesis
      using assms(1) st3 p sd unfolding w3_def
      by (simp add: Collect'_def entered_def [symmetric] s Let_def)
  next
    case True
    then show ?thesis
      using assms(1) st3 p sd unfolding w3_def
      by (cases "Marshal ev (Some m)")
         (simp_all add: Collect'_def entered_def [symmetric] s Let_def)
  qed
  with ex4 show ?thesis by blast
qed

text \<open>
  C2, as the code has it.  For every successfully decoded payload (a non-nil
  \<open>KibanaMetrics\<close>), the cycle does not panic and sets the overall-status gauge to 1
  if and only if the payload's overall state, lowercased, equals \<open>green\<close> (so \<open>Green\<close>
  gives 1), and to 0 otherwise.  The secondary gauges are updated from the payload if and
  only if the overall-status gauge is 1: then the child of \<open>info\<close> labelled with the
  payload's version and build is set to 1 and the eleven scalar gauges get the payload's
  values, the integers converted by \<open>float64\<close>; otherwise \<open>info\<close> and the eleven stay
  as the earlier cycles left them.  What the cycle emits does not depend on the status:
  in both cases it writes the status gauge, then every child that \<open>info\<close> has by then,
  each once and in the order of the range over its map (none when no payload has been
  green so far, and the payload's own child among them when it is green), then the eleven
  scalar gauges in their fixed order and under their names; \<open>send\<close> looks at the
  reachability flag and not at the status.
\<close>

theorem Collect_decoded:
  assumes "target (exporter w) = Some t"
    and "NewRequest_err ev ''GET'' (URL (scrapeRequest (heap w t))) = None"
    and "Do ev (client (heap w t)) (scrapeRequest (heap w t)) = Inr resp"
    and "StatusCode resp = 200"
    and "Body resp = Inr content"
    and "Unmarshal ev content = Inr (Some m)"
  shows "case Collect' ev w of
           Inl p \<Rightarrow> False
         | Inr (w', ch) \<Rightarrow>
             status (exporter w') =
               (status (exporter w))\<lparr>val := (if ToLower (Overall_State m) = ''green'' then 1 else 0)\<rparr> \<and>
             ch = gaugeMetric (status (exporter w')) # vecCollect (mapOrder ev) (info (exporter w'))
                    @ map gaugeMetric (secondary (exporter w')) \<and>
             mset (vecCollect (mapOrder ev) (info (exporter w'))) =
               mset (map (childMetric (info (exporter w'))) (children (info (exporter w')))) \<and>
             map fqName (secondary (exporter w')) = map fqName (secondary (exporter w)) \<and>
             (if ToLower (Overall_State m) = ''green''
              then info (exporter w') =
                     WithLabelValues_Set (info (exporter w)) [Version m, Sprintf_d (Build m)] 1 \<and>
                   childMetric (info (exporter w')) ([Version m, Sprintf_d (Build m)], 1) \<in> set ch \<and>
                   map val (secondary (exporter w')) =
                     [float64 (ConcurrentConnections m), UptimeInMillis m, float64 (TotalInBytes m),
                      float64 (UsedInBytes m), Load1m m, Load5m m, Load15m m, AvgInMillis m,
                      MaxInMillis m, float64 (Disconnects m), float64 (Requests_Total m)]
              else info (exporter w') = info (exporter w) \<and>
                   secondary (exporter w') = secondary (exporter w))"
proof -
  obtain w' where c: "Collect' ev w =
      Inr (w', gaugeMetric (status (exporter w')) # vecCollect (mapOrder ev) (info (exporter w'))
                 @ map gaugeMetric (secondary (exporter w')))"
    and e: "exporter w' = mapped m (exporter w)"
    using Collect_decoded_eq [OF assms] by blast
  have i: "ToLower (Overall_State m) = ''green'' \<Longrightarrow>
      childMetric (info (exporter w')) ([Version m, Sprintf_d (Build m)], 1)
        \<in> set (vecCollect (mapOrder ev) (info (exporter w')))"
    by (rule childMetric_in_vecCollect) (simp add: e mapped_def WithLabelValues_Set_child)
  have rest: "status (exporter w') =
        (status (exporter w))\<lparr>val := (if ToLower (Overall_State m) = ''green'' then 1 else 0)\<rparr> \<and>
      map fqName (secondary (exporter w')) = map fqName (secondary (exporter w)) \<and>
      (if ToLower (Overall_State m) = ''green''
       then info (exporter w') =
              WithLabelValues_Set (info (exporter w)) [Version m, Sprintf_d (Build m)] 1 \<and>
            map val (secondary (exporter w')) =
              [float64 (ConcurrentConnections m), UptimeInMillis m, float64 (TotalInBytes m),
               float64 (UsedInBytes m), Load1m m, Load5m m, Load15m m, AvgInMillis m,
               MaxInMillis m, float64 (Disconnects m), float64 (Requests_Total m)]
       else info (exporter w') = info (exporter w) \<and>
            secondary (exporter w') = secondary (exporter w))"
    by (simp add: e mapped_def secondary_def Set_def)
  show ?thesis
    using i rest by (simp add: c mset_vecCollect del: mset_map)
qed

text \<open>The gauges of the concrete exporter, and the cycle in the concrete world for a
  payload with a given state.\<close>

lemma gaugeValue_gaugeMetric [simp]: "gaugeValue (gaugeMetric g) = val g"
  by (simp add: gaugeMetric_def)

lemma metricName_gaugeMetric [simp]: "metricName (gaugeMetric g) = fqName g"
  by (simp add: gaugeMetric_def)

lemma boundWorld_exporter:
  "exporter boundWorld = demoExporter\<lparr>target := Some 0\<rparr>"
  by (simp add: boundWorld_def unboundWorld_def SetTarget_def)

lemma demoExporter_gauges:
  "map fqName (secondary demoExporter) =
     [''kibana_concurrent_connections'', ''kibana_millis_uptime'', ''kibana_heap_max_in_bytes'',
      ''kibana_heap_used_in_bytes'', ''kibana_os_load_1m'', ''kibana_os_load_5m'',
      ''kibana_os_load_15m'', ''kibana_response_average'', ''kibana_response_max'',
      ''kibana_requests_disconnects'', ''kibana_requests_total'']"
  "map val (secondary demoExporter) = [0, 0, 0, 0, 0, 0, 0, 0, 0, 0, 0]"
  "children (info demoExporter) = []"
  "vec_fqName (info demoExporter) = ''kibana_info''"
  "variableLabels (info demoExporter) = [''version'', ''build'']"
  "fqName (status demoExporter) = ''kibana_status''"
  by (simp_all add: secondary_def world_defs Let_def)

lemma envState_hyps:
  "NewRequest_err (envState st) ''GET'' (URL (scrapeRequest (heap boundWorld 0))) = None"
  "Do (envState st) (client (heap boundWorld 0)) (scrapeRequest (heap boundWorld 0)) =
     Inr \<lparr>StatusCode = 200, Status = ''200 OK'', Body = Inr ''{}''\<rparr>"
  "Unmarshal (envState st) ''{}'' = Inr (Some (payload st))"
  by (simp_all add: env_defs)

lemma Collect_envState:
  "\<exists>w'. Collect' (envState st) boundWorld =
           Inr (w', gaugeMetric (status (exporter w'))
                      # vecCollect (mapOrder (envState st)) (info (exporter w'))
                      @ map gaugeMetric (secondary (exporter w'))) \<and>
         exporter w' = mapped (payload st) (exporter boundWorld)"
  by (rule Collect_decoded_eq [OF boundWorld_target envState_hyps(1) envState_hyps(2) _ _ envState_hyps(3)])
     simp_all

text \<open>
  For the state \<open>yellow\<close> the overall-status gauge is 0 and the cycle still emits the
  eleven secondary gauges after it; for the state \<open>Green\<close> the overall-status gauge is 1.
\<close>

theorem Collect_yellow_counterexample:
  "map (\<lambda>m. (metricName m, gaugeValue m)) (snd (projr (Collect' (envState ''yellow'') boundWorld))) =
     [(''kibana_status'', 0), (''kibana_concurrent_connections'', 0), (''kibana_millis_uptime'', 0),
      (''kibana_heap_max_in_bytes'', 0), (''kibana_heap_used_in_bytes'', 0), (''kibana_os_load_1m'', 0),
      (''kibana_os_load_5m'', 0), (''kibana_os_load_15m'', 0), (''kibana_response_average'', 0),
      (''kibana_response_max'', 0), (''kibana_requests_disconnects'', 0), (''kibana_requests_total'', 0)] \<and>
   val (status (exporter (fst (projr (Collect' (envState ''Green'') boundWorld))))) = 1"
proof -
  obtain wy where y: "Collect' (envState ''yellow'') boundWorld =
      Inr (wy, gaugeMetric (status (exporter wy))
                 # vecCollect (mapOrder (envState ''yellow'')) (info (exporter wy))
                 @ map gaugeMetric (secondary (exporter wy)))"
    and ey: "exporter wy = mapped (payload ''yellow'') (exporter boundWorld)"
    using Collect_envState [of "''yellow''"] by blast
  obtain wg where g: "Collect' (envState ''Green'') boundWorld =
      Inr (wg, gaugeMetric (status (exporter wg))
                 # vecCollect (mapOrder (envState ''Green'')) (info (exporter wg))
                 @ map gaugeMetric (secondary (exporter wg)))"
    and eg: "exporter wg = mapped (payload ''Green'') (exporter boundWorld)"
    using Collect_envState [of "''Green''"] by blast
  have 1: "ToLower (Overall_State (payload ''yellow'')) \<noteq> ''green''"
    by (simp add: payload_def string_defs)
  have 2: "ToLower (Overall_State (payload ''Green'')) = ''green''"
    by (simp add: payload_def string_defs)
  have ey': "exporter wy = demoExporter\<lparr>target := Some 0, status := Set (status demoExporter) 0\<rparr>"
    by (simp add: ey mapped_def 1 boundWorld_exporter)
  have sy: "secondary (exporter wy) = secondary demoExporter"
    by (simp add: ey' secondary_def)
  have ny: "map ((\<lambda>m. (metricName m, gaugeValue m)) \<circ> gaugeMetric) (secondary demoExporter) =
      [(''kibana_concurrent_connections'', 0), (''kibana_millis_uptime'', 0),
       (''kibana_heap_max_in_bytes'', 0), (''kibana_heap_used_in_bytes'', 0),
       (''kibana_os_load_1m'', 0), (''kibana_os_load_5m'', 0), (''kibana_os_load_15m'', 0),
       (''kibana_response_average'', 0), (''kibana_response_max'', 0),
       (''kibana_requests_disconnects'', 0), (''kibana_requests_total'', 0)]"
    by (simp add: secondary_def world_defs Let_def)
  have "val (status (exporter wg)) = 1"
    by (simp add: eg mapped_def 2 Set_def)
  then show ?thesis
    using demoExporter_gauges(3,6)
    by (simp add: y g sy ny vecCollect_def) (simp add: ey' Set_def)
qed

text \<open>
  The payload of the concrete environment in the concrete world, whose exporter has seen
  no payload before.  For the state \<open>Green\<close> the cycle emits thirteen samples, the
  status 1, the one child of \<open>info\<close> with its two label pairs sorted by name, and the
  eleven values of the payload; for the state \<open>red\<close> it emits twelve, the status 0 and
  the eleven gauges at their initial 0, and no sample of \<open>info\<close>.
\<close>

lemma float64_payload:
  "float64 3 = 3" "float64 200 = 200" "float64 100 = 100" "float64 6 = 6" "float64 7 = 7"
  by (simp_all add: float64_exact)

theorem Collect_decoded_witness:
  "target (exporter boundWorld) = Some 0 \<and>
   Do (envState ''Green'') (client (heap boundWorld 0)) (scrapeRequest (heap boundWorld 0)) =
     Inr \<lparr>StatusCode = 200, Status = ''200 OK'', Body = Inr ''{}''\<rparr> \<and>
   Unmarshal (envState ''Green'') ''{}'' = Inr (Some (payload ''Green'')) \<and>
   snd (projr (Collect' (envState ''Green'') boundWorld)) ! 1 =
     \<lparr>metricName = ''kibana_info'', labelPairs = [(''build'', ''46635''), (''version'', ''7.17.1'')],
      gaugeValue = 1\<rparr> \<and>
   map (\<lambda>m. (metricName m, gaugeValue m)) (snd (projr (Collect' (envState ''Green'') boundWorld))) =
     [(''kibana_status'', 1), (''kibana_info'', 1), (''kibana_concurrent_connections'', 3),
      (''kibana_millis_uptime'', 1000), (''kibana_heap_max_in_bytes'', 200),
      (''kibana_heap_used_in_bytes'', 100), (''kibana_os_load_1m'', 1), (''kibana_os_load_5m'', 2),
      (''kibana_os_load_15m'', 3), (''kibana_response_average'', 4), (''kibana_response_max'', 5),
      (''kibana_requests_disconnects'', 6), (''kibana_requests_total'', 7)] \<and>
   map (\<lambda>m. (metricName m, gaugeValue m)) (snd (projr (Collect' (envState ''red'') boundWorld))) =
     [(''kibana_status'', 0), (''kibana_concurrent_connections'', 0), (''kibana_millis_uptime'', 0),
      (''kibana_heap_max_in_bytes'', 0), (''kibana_heap_used_in_bytes'', 0), (''kibana_os_load_1m'', 0),
      (''kibana_os_load_5m'', 0), (''kibana_os_load_15m'', 0), (''kibana_response_average'', 0),
      (''kibana_response_max'', 0), (''kibana_requests_disconnects'', 0), (''kibana_requests_total'', 0)]"
proof -
  have h4: "StatusCode \<lparr>StatusCode = 200, Status = ''200 OK'', Body = Inr ''{}''\<rparr> = 200"
    and h5: "Body \<lparr>StatusCode = 200, Status = ''200 OK'', Body = Inr ''{}''\<rparr> = Inr ''{}''"
    by simp_all
  note g = Collect_decoded [OF boundWorld_target envState_hyps(1) [of "''Green''"]
      envState_hyps(2) [of "''Green''"] h4 h5 envState_hyps(3) [of "''Green''"]]
  note r = Collect_decoded [OF boundWorld_target envState_hyps(1) [of "''red''"]
      envState_hyps(2) [of "''red''"] h4 h5 envState_hyps(3) [of "''red''"]]
  have st: "status (exporter boundWorld) =
      \<lparr>fqName = ''kibana_status'', Help = ''Kibana overall status (0: down, 1:up)'', val = 0\<rparr>"
    by (rule boundWorld_status)
  have inf: "info (exporter boundWorld) =
      \<lparr>vec_fqName = ''kibana_info'',
       vec_help = ''Kibana overall info, version build; see labels, always 1'',
       variableLabels = [''version'', ''build''], children = []\<rparr>"
    by (simp add: world_defs Let_def)
  have names: "map fqName (secondary (exporter boundWorld)) =
     [''kibana_concurrent_connections'', ''kibana_millis_uptime'', ''kibana_heap_max_in_bytes'',
      ''kibana_heap_used_in_bytes'', ''kibana_os_load_1m'', ''kibana_os_load_5m'',
      ''kibana_os_load_15m'', ''kibana_response_average'', ''kibana_response_max'',
      ''kibana_requests_disconnects'', ''kibana_requests_total'']"
    and vals: "map val (secondary (exporter boundWorld)) = [0, 0, 0, 0, 0, 0, 0, 0, 0, 0, 0]"
    using demoExporter_gauges(1,2) by (simp_all add: boundWorld_exporter secondary_def)
  have zipped: "map ((\<lambda>m. (metricName m, gaugeValue m)) \<circ> gaugeMetric) gs =
      zip (map fqName gs) (map val gs)" for gs
    by (induct gs) simp_all
  have green:
    "snd (projr (Collect' (envState ''Green'') boundWorld)) ! 1 =
       \<lparr>metricName = ''kibana_info'', labelPairs = [(''build'', ''46635''), (''version'', ''7.17.1'')],
        gaugeValue = 1\<rparr> \<and>
     map (\<lambda>m. (metricName m, gaugeValue m)) (snd (projr (Collect' (envState ''Green'') boundWorld))) =
       [(''kibana_status'', 1), (''kibana_info'', 1), (''kibana_concurrent_connections'', 3),
        (''kibana_millis_uptime'', 1000), (''kibana_heap_max_in_bytes'', 200),
        (''kibana_heap_used_in_bytes'', 100), (''kibana_os_load_1m'', 1), (''kibana_os_load_5m'', 2),
        (''kibana_os_load_15m'', 3), (''kibana_response_average'', 4), (''kibana_response_max'', 5),
        (''kibana_requests_disconnects'', 6), (''kibana_requests_total'', 7)]"
  proof (cases "Collect' (envState ''Green'') boundWorld")
    case (Inl p)
    with g show ?thesis by simp
  next
    case (Inr wc)
    obtain w' ch where wc: "wc = (w', ch)" by (cases wc)
    have 2: "ToLower (Overall_State (payload ''Green'')) = ''green''"
      by (simp add: payload_def string_defs)
    from g Inr wc 2
    have s: "status (exporter w') = (status (exporter boundWorld))\<lparr>val := 1\<rparr>"
      and c: "ch = gaugeMetric (status (exporter w')) # vecCollect (mapOrder (envState ''Green'')) (info (exporter w'))
                    @ map gaugeMetric (secondary (exporter w'))"
      and n: "map fqName (secondary (exporter w')) = map fqName (secondary (exporter boundWorld))"
      and i: "info (exporter w') =
                WithLabelValues_Set (info (exporter boundWorld))
                  [Version (payload ''Green''), Sprintf_d (Build (payload ''Green''))] 1"
      and v: "map val (secondary (exporter w')) =
                [float64 (ConcurrentConnections (payload ''Green'')), UptimeInMillis (payload ''Green''),
                 float64 (TotalInBytes (payload ''Green'')), float64 (UsedInBytes (payload ''Green'')),
                 Load1m (payload ''Green''), Load5m (payload ''Green''), Load15m (payload ''Green''),
                 AvgInMillis (payload ''Green''), MaxInMillis (payload ''Green''),
                 float64 (Disconnects (payload ''Green'')), float64 (Requests_Total (payload ''Green''))]"
      by simp_all
    have vc: "vecCollect (mapOrder (envState ''Green'')) (info (exporter w')) =
        [\<lparr>metricName = ''kibana_info'', labelPairs = [(''build'', ''46635''), (''version'', ''7.17.1'')],
          gaugeValue = 1\<rparr>]"
      by (simp add: i inf WithLabelValues_Set_def vecCollect_def childMetric_def sortLabelPairs_def
            payload_def Sprintf_d_def)
    show ?thesis
      by (simp add: Inr wc c vc zipped s st n names v payload_def float64_payload)
  qed
  have red:
    "map (\<lambda>m. (metricName m, gaugeValue m)) (snd (projr (Collect' (envState ''red'') boundWorld))) =
     [(''kibana_status'', 0), (''kibana_concurrent_connections'', 0), (''kibana_millis_uptime'', 0),
      (''kibana_heap_max_in_bytes'', 0), (''kibana_heap_used_in_bytes'', 0), (''kibana_os_load_1m'', 0),
      (''kibana_os_load_5m'', 0), (''kibana_os_load_15m'', 0), (''kibana_response_average'', 0),
      (''kibana_response_max'', 0), (''kibana_requests_disconnects'', 0), (''kibana_requests_total'', 0)]"
  proof (cases "Collect' (envState ''red'') boundWorld")
    case (Inl p)
    with r show ?thesis by simp
  next
    case (Inr wc)
    obtain w' ch where wc: "wc = (w', ch)" by (cases wc)
    have 1: "ToLower (Overall_State (payload ''red'')) \<noteq> ''green''"
      by (simp add: payload_def string_defs)
    from r Inr wc 1
    have s: "status (exporter w') = (status (exporter boundWorld))\<lparr>val := 0\<rparr>"
      and c: "ch = gaugeMetric (status (exporter w')) # vecCollect (mapOrder (envState ''red'')) (info (exporter w'))
                    @ map gaugeMetric (secondary (exporter w'))"
      and i: "info (exporter w') = info (exporter boundWorld)"
      and v: "secondary (exporter w') = secondary (exporter boundWorld)"
      by simp_all
    have vc: "vecCollect (mapOrder (envState ''red'')) (info (exporter w')) = []"
      by (simp add: i inf vecCollect_def)
    show ?thesis
      by (simp add: Inr wc c vc zipped s st v names vals)
  qed
  show ?thesis
    using green red boundWorld_target envState_hyps(2) [of "''Green''"] envState_hyps(3) [of "''Green''"]
    by simp
qed

subsection \<open>Claim C10\<close>

lemma index0_Cons: "index0 (x # xs) = Inr x"
  by (simp add: index0_def)

text \<open>
  C10.  For every incoming metrics request, whatever the value of the query parameter
  \<open>target\<close>, the handler binds the first configured collector, \<open>Collectors[0]\<close>, and
  runs the cycle on it: its outcome is that of \<open>Collect\<close> with \<open>target\<close> set to the
  head of \<open>Collectors\<close>, the same as for the empty parameter.  Neither side mentions
  \<open>KibanaByName\<close>: the name-indexed lookup \<open>FindTarget\<close> is not consulted.
\<close>

theorem handler_binds_first:
  assumes "Collectors (exporter w) = c # cs"
  shows "handler ev tgt w = Collect' ev (w\<lparr>exporter := (exporter w)\<lparr>target := c\<rparr>\<rparr>) \<and>
         handler ev tgt w = handler ev '''' w"
  using assms by (simp add: handler_def index0_Cons SetTarget_def)

text \<open>In the concrete world the parameter \<open>b\<close> names the second collector, which
  \<open>FindTarget\<close> would return; the handler binds the first.\<close>

lemma unboundWorld_Collectors: "Collectors (exporter unboundWorld) = [Some 0, Some 1]"
  by (simp add: world_defs Let_def)

lemma unboundWorld_FindTarget: "FindTarget (exporter unboundWorld) ''b'' = Some 1"
  by (simp add: FindTarget_def world_defs check_def yamlConfig_def cliConfig_def url_def Let_def)

theorem handler_binds_first_witness:
  "Collectors (exporter unboundWorld) = [Some 0, Some 1] \<and>
   FindTarget (exporter unboundWorld) ''b'' = Some 1 \<and>
   handler envRefused ''b'' unboundWorld = Collect' envRefused boundWorld \<and>
   target (exporter boundWorld) = Some 0 \<and>
   handler envRefused ''b'' unboundWorld = handler envRefused '''' unboundWorld"
proof -
  have b: "unboundWorld\<lparr>exporter := (exporter unboundWorld)\<lparr>target := Some 0\<rparr>\<rparr> = boundWorld"
    by (simp add: boundWorld_def SetTarget_def unboundWorld_def)
  note h = handler_binds_first [OF unboundWorld_Collectors, of envRefused "''b''", unfolded b]
  show ?thesis
    using h unboundWorld_Collectors unboundWorld_FindTarget boundWorld_target by blast
qed

end
